theory Spec2Isabelle
  imports Complex_Main "HOL-Library.Word"
begin

section \<open>JavaScript strings and JSON values\<close>

text \<open>
  A JavaScript string is a sequence of UTF-16 code units. String literals of the source that
  are plain ASCII are written \<open>ascii ''...''\<close>; the three non-ASCII characters of the
  system prompt are given by their code unit.
\<close>

type_synonym jsstring = "16 word list"

definition ascii :: "string \<Rightarrow> jsstring" where
  "ascii s = map of_char s"

text \<open>
  \<open>String.prototype.trim\<close> removes the ECMAScript white space and line terminator code
  points from both ends: TAB, LF, VT, FF, CR, SP, NBSP, U+1680, U+2000..U+200A, U+2028,
  U+2029, U+202F, U+205F, U+3000 and U+FEFF.
\<close>

definition is_ws :: "16 word \<Rightarrow> bool" where
  "is_ws c \<longleftrightarrow>
     c \<in> {0x9, 0xA, 0xB, 0xC, 0xD, 0x20, 0xA0, 0x1680, 0x2028, 0x2029, 0x202F, 0x205F, 0x3000, 0xFEFF}
     \<or> (0x2000 \<le> c \<and> c \<le> 0x200A)"

definition trim :: "jsstring \<Rightarrow> jsstring" where
  "trim s = rev (dropWhile is_ws (rev (dropWhile is_ws s)))"

text \<open>
  A value obtained from \<open>JSON.parse\<close>, or \<open>undefined\<close>. An object is the list of its
  own properties; a number is the rational it denotes (JSON has no NaN and no infinities).
\<close>

datatype jsval =
    JUndefined
  | JNull
  | JBool bool
  | JNum rat
  | JStr jsstring
  | JArr "jsval list"
  | JObj "(jsstring \<times> jsval) list"

text \<open>\<open>ToBoolean\<close>: what \<open>!v\<close>, \<open>v || w\<close> and \<open>v ? a : b\<close> test.\<close>

fun truthy :: "jsval \<Rightarrow> bool" where
  "truthy JUndefined = False"
| "truthy JNull = False"
| "truthy (JBool b) = b"
| "truthy (JNum n) = (n \<noteq> 0)"
| "truthy (JStr s) = (s \<noteq> [])"
| "truthy (JArr vs) = True"
| "truthy (JObj kvs) = True"

fun typeof :: "jsval \<Rightarrow> string" where
  "typeof JUndefined = ''undefined''"
| "typeof JNull = ''object''"
| "typeof (JBool b) = ''boolean''"
| "typeof (JNum n) = ''number''"
| "typeof (JStr s) = ''string''"
| "typeof (JArr vs) = ''object''"
| "typeof (JObj kvs) = ''object''"

fun nullish :: "jsval \<Rightarrow> bool" where
  "nullish JUndefined = True"
| "nullish JNull = True"
| "nullish v = False"

text \<open>
  \<open>v.k\<close> on a value that is neither \<open>null\<close> nor \<open>undefined\<close> (where the access throws a
  TypeError, written out at each use). Only the keys \<open>message\<close>, \<open>content\<close>, \<open>text\<close>,
  \<open>error\<close> and \<open>reply\<close> are read by the source; none of them is a built-in property of a
  string, number, boolean or array, which therefore give \<open>undefined\<close>.
\<close>

fun js_get :: "jsval \<Rightarrow> jsstring \<Rightarrow> jsval" where
  "js_get (JObj kvs) k = (case map_of kvs k of None \<Rightarrow> JUndefined | Some v \<Rightarrow> v)"
| "js_get v k = JUndefined"

text \<open>Optional chaining \<open>v?.k\<close>, nullish coalescing \<open>v ?? w\<close> and \<open>v || w\<close>.\<close>

definition opt_prop :: "jsval \<Rightarrow> jsstring \<Rightarrow> jsval" where
  "opt_prop v k = (if nullish v then JUndefined else js_get v k)"

definition coalesce :: "jsval \<Rightarrow> jsval \<Rightarrow> jsval" where
  "coalesce v w = (if nullish v then w else v)"

definition or_else :: "jsval \<Rightarrow> jsval \<Rightarrow> jsval" where
  "or_else v w = (if truthy v then v else w)"

section \<open>Awaited calls and HTTP\<close>

text \<open>The outcome of an awaited promise: it rejects (the \<open>await\<close> throws) or resolves.\<close>

datatype 'a promise = Rejects | Resolves 'a

text \<open>
  What \<open>fetch\<close> resolves to. \<open>body_text\<close> is what \<open>res.text()\<close> gives and \<open>body_json\<close> what
  \<open>res.json()\<close> gives; \<open>None\<close> means that the call rejects (the body cannot be read, or
  is not JSON).
\<close>

record response =
  status :: nat
  body_text :: "jsstring option"
  body_json :: "jsval option"

definition ok :: "response \<Rightarrow> bool" where
  "ok res \<longleftrightarrow> 200 \<le> status res \<and> status res \<le> 299"

text \<open>A request handed to \<open>fetch\<close>; \<open>body\<close> is the value serialised into it.\<close>

record 'b request =
  url :: jsstring
  http_method :: jsstring
  headers :: "(jsstring \<times> jsstring) list"
  body :: 'b

text \<open>\<open>NextResponse.json(value, { status })\<close>, what a route handler returns.\<close>

datatype next_response = NextResponse_json jsval nat

section \<open>Chat Relay: \<open>app/api/chat/route.ts\<close>\<close>

definition SYSTEM_PROMPT :: jsstring where
  \<open>SYSTEM_PROMPT = concat (map (\<lambda>line. line @ [0xA])
    [
     [],
     ascii ''You are "ZeroOne Dialect AI" '' @ [0x2014] @ ascii '' a multilingual customer service agent for the Singapore telco Zero1.'',
     [],
     ascii ''Your job:'',
     ascii ''- Understand and reply in the SAME language or dialect the user uses.'',
     ascii ''- Supported languages and dialects: English, Singlish, Mandarin, Hokkien, Cantonese, Teochew.'',
     ascii ''- If the user mixes languages (very common in Singapore), reply naturally in mixed language too.'',
     [],
     ascii ''Singlish style (very important):'',
     ascii ''- Use natural Singapore Singlish, not American or Jamaican slang.'',
     ascii ''- Do NOT use words like "yuh", "ya mon", "mate", or Caribbean-style English.'',
     ascii ''- Use common Singlish particles like "lah", "lor", "leh", "mah", "meh", "ah", "hor" in a natural way.'',
     ascii ''- Use "you" or "u" (not "yuh"), and simple short sentences.'',
     ascii ''- "meh" is usually used at the END of a question, not at the beginning of a sentence.'',
     ascii ''- Overall tone should feel like a friendly Singapore CS agent chatting with a customer.'',
     [],
     ascii ''Tone:'',
     ascii ''- Friendly, concise, helpful.'',
     ascii ''- Sound like a real Singapore telco customer service agent.'',
     ascii ''- Keep answers short and practical (2'' @ [0x2013] @ ascii ''4 short sentences usually enough).'',
     [],
     ascii ''Rules:'',
     ascii ''- Do not hallucinate technical info.'',
     ascii ''- If unsure, give the safest, standard telco explanation.'',
     ascii ''- Always match the user'' @ [0x2019] @ ascii ''s language, dialect, and tone.'',
     [],
     ascii ''Common telco topics you should handle:'',
     ascii ''- Bill suddenly higher than usual'',
     ascii ''- Data usage exceeded'',
     ascii ''- Roaming charges'',
     ascii ''- Plan upgrade or downgrade'',
     ascii ''- Contract / SIM card / activation issues'',
     ascii ''- Slow network or poor coverage'',
     ascii ''- Payment method / invoice questions'',
     [],
     ascii ''Dialect behaviour:'',
     ascii ''- For Hokkien: use simple vocabulary, Singapore-style expressions (e.g. "bo lah", "jialat", "kan cheong").'',
     ascii ''- For Cantonese: Hong Kong / Singapore mix is OK, but keep it simple.'',
     ascii ''- For Teochew: simple Teochew phrases mixed with Mandarin is OK.'',
     ascii ''- For Singlish: natural, short, casual, like how people talk in Singapore.'',
     [],
     ascii ''If the user says: "explain in Hokkien / Cantonese / Teochew", follow their request.'',
     [],
     ascii ''If the user speaks English or Mandarin, reply in the same language unless they request otherwise.''
    ])\<close>

record chat_env =
  LLM_SERVER_URL :: "jsstring option"
  LLM_MODEL_NAME :: "jsstring option"

text \<open>
  The parsed request body as the handler destructures it: \<open>message\<close> is whatever JSON value
  the key holds (\<open>JUndefined\<close> when it is absent), \<open>language\<close> is typed
  \<open>string | undefined\<close> by the handler and is modelled at that type.
\<close>

datatype chat_body = Body jsval "jsstring option"

definition languageHint :: "jsstring option \<Rightarrow> jsstring" where
  "languageHint language =
     (case language of
        Some l \<Rightarrow>
          if l \<noteq> []
          then ascii ''User selected language/dialect: '' @ l
                 @ ascii ''. Reply in this language or dialect if possible.''
          else ascii ''User language may change; auto-detect and match the user.''
      | None \<Rightarrow> ascii ''User language may change; auto-detect and match the user.'')"

definition fewShotMessages :: "jsval list" where
  "fewShotMessages =
     [JObj [(ascii ''role'', JStr (ascii ''user'')),
            (ascii ''content'', JStr (ascii ''Why my bill so high one?''))],
      JObj [(ascii ''role'', JStr (ascii ''assistant'')),
            (ascii ''content'', JStr (ascii ''This month your usage a bit higher lah. You used more data and a few extra calls, so the bill go up. You can check the itemised bill to see which part increase the most.''))],
      JObj [(ascii ''role'', JStr (ascii ''user'')),
            (ascii ''content'', JStr (ascii ''Eh my data finish so fast, what happen ah?''))],
      JObj [(ascii ''role'', JStr (ascii ''assistant'')),
            (ascii ''content'', JStr (ascii ''Maybe got more video or hotspot this month lor. Once you pass the bundle, extra data will charge by rate. Next time can consider bigger plan or set data alert, so you know before it burst.''))],
      JObj [(ascii ''role'', JStr (ascii ''user'')),
            (ascii ''content'', JStr (ascii ''Can explain to me in Singlish, not so formal?''))],
      JObj [(ascii ''role'', JStr (ascii ''assistant'')),
            (ascii ''content'', JStr (ascii ''Can lah. I just explain properly but still in Singlish style. Main thing is you understand what happen to your bill and data usage, okay?''))]]"

definition modelName :: "chat_env \<Rightarrow> jsstring" where
  "modelName env =
     (case LLM_MODEL_NAME env of
        Some n \<Rightarrow> if n \<noteq> [] then n else ascii ''qwen2.5:7b''
      | None \<Rightarrow> ascii ''qwen2.5:7b'')"

definition payload :: "chat_env \<Rightarrow> jsstring option \<Rightarrow> jsval \<Rightarrow> jsval" where
  "payload env language message =
     JObj [(ascii ''model'', JStr (modelName env)),
           (ascii ''stream'', JBool False),
           (ascii ''messages'',
              JArr ([JObj [(ascii ''role'', JStr (ascii ''system'')),
                           (ascii ''content'',
                              JStr (SYSTEM_PROMPT @ [0xA, 0xA] @ languageHint language))]]
                    @ fewShotMessages
                    @ [JObj [(ascii ''role'', JStr (ascii ''user'')),
                             (ascii ''content'', message)]]))]"

definition chat_internal_error :: next_response where
  "chat_internal_error =
     NextResponse_json (JObj [(ascii ''error'', JStr (ascii ''Internal server error''))]) 500"

text \<open>
  The handler, with the calls it makes to the chat-completion backend. Every exception
  inside the \<open>try\<close> block ends in the \<open>catch\<close>, which answers \<open>chat_internal_error\<close>:
  \<open>req.json()\<close> rejecting, destructuring a \<open>null\<close> body (\<open>Resolves None\<close>), \<open>fetch\<close>
  rejecting, \<open>res.text()\<close> or \<open>res.json()\<close> rejecting.
\<close>

definition POST_chat ::
  "chat_env \<Rightarrow> chat_body option promise \<Rightarrow> (jsval request \<Rightarrow> response promise)
     \<Rightarrow> next_response \<times> jsval request list" where
  "POST_chat env req_json fetch =
     (case req_json of
        Rejects \<Rightarrow> (chat_internal_error, [])
      | Resolves None \<Rightarrow> (chat_internal_error, [])
      | Resolves (Some (Body message language)) \<Rightarrow>
          if \<not> truthy message \<or> typeof message \<noteq> ''string''
          then (NextResponse_json (JObj [(ascii ''error'', JStr (ascii ''Missing message''))]) 400, [])
          else
            (case LLM_SERVER_URL env of
               None \<Rightarrow>
                 (NextResponse_json
                    (JObj [(ascii ''error'', JStr (ascii ''LLM_SERVER_URL is not configured''))]) 500, [])
             | Some llmBaseUrl \<Rightarrow>
                 if llmBaseUrl = []
                 then (NextResponse_json
                    (JObj [(ascii ''error'', JStr (ascii ''LLM_SERVER_URL is not configured''))]) 500, [])
                 else
                   let call = \<lparr>url = llmBaseUrl @ ascii ''/api/chat'',
                               http_method = ascii ''POST'',
                               headers = [(ascii ''Content-Type'', ascii ''application/json'')],
                               body = payload env language message\<rparr>
                   in (case fetch call of
                         Rejects \<Rightarrow> (chat_internal_error, [call])
                       | Resolves res \<Rightarrow>
                           if \<not> ok res
                           then (case body_text res of
                                   None \<Rightarrow> (chat_internal_error, [call])
                                 | Some text \<Rightarrow>
                                     (NextResponse_json
                                        (JObj [(ascii ''error'', JStr (ascii ''LLM server error'')),
                                               (ascii ''detail'', JStr text)]) 502, [call]))
                           else (case body_json res of
                                   None \<Rightarrow> (chat_internal_error, [call])
                                 | Some data \<Rightarrow>
                                     let reply = coalesce
                                           (opt_prop (opt_prop data (ascii ''message'')) (ascii ''content''))
                                           (JStr (ascii ''Sorry, I am temporarily unable to respond. Please try again later.''))
                                     in (NextResponse_json (JObj [(ascii ''reply'', reply)]) 200, [call])))))"

section \<open>Transcription Relay: \<open>app/api/asr/route.ts\<close>\<close>

text \<open>A \<open>Blob\<close>: its bytes and its MIME type.\<close>

datatype blob = Blob "8 word list" jsstring

text \<open>
  An entry value of an incoming \<open>FormData\<close> is a string (a plain text field) or a
  \<open>File\<close>, which is a \<open>Blob\<close>. \<open>formData.get(name)\<close> gives the first entry of that name,
  or \<open>null\<close>.
\<close>

datatype form_value = FormText jsstring | FormFile blob

definition FormData_get :: "(jsstring \<times> form_value) list \<Rightarrow> jsstring \<Rightarrow> form_value option" where
  "FormData_get formData name = map_of formData name"

text \<open>
  \<open>form.append(name, value, filename)\<close>: the three-argument form exists only for a \<open>Blob\<close>
  value; with a string or \<open>null\<close> the call throws a TypeError (the result \<open>None\<close>).
\<close>

definition FormData_append ::
  "(jsstring \<times> blob \<times> jsstring) list \<Rightarrow> jsstring \<Rightarrow> form_value option \<Rightarrow> jsstring
     \<Rightarrow> (jsstring \<times> blob \<times> jsstring) list option" where
  "FormData_append form name v filename =
     (case v of
        Some (FormFile b) \<Rightarrow> Some (form @ [(name, b, filename)])
      | Some (FormText t) \<Rightarrow> None
      | None \<Rightarrow> None)"

text \<open>\<open>!audio\<close> for \<open>audio\<close> an entry value or \<open>null\<close>.\<close>

fun entry_falsy :: "form_value option \<Rightarrow> bool" where
  "entry_falsy None = True"
| "entry_falsy (Some (FormText t)) = (t = [])"
| "entry_falsy (Some (FormFile b)) = False"

definition asr_internal_error :: next_response where
  "asr_internal_error =
     NextResponse_json
       (JObj [(ascii ''error'', JStr (ascii ''Internal server error in /api/asr''))]) 500"

definition asr_not_configured :: next_response where
  "asr_not_configured =
     NextResponse_json
       (JObj [(ascii ''error'', JStr (ascii ''ASR_SERVER_URL is not configured''))]) 500"

text \<open>
  The handler, with the calls it makes to the speech-recognition backend. \<open>ASR_URL\<close> is
  \<open>process.env.ASR_SERVER_URL\<close>. The \<open>catch\<close> answers \<open>asr_internal_error\<close> when
  \<open>req.formData()\<close>, \<open>forwardForm.append\<close> or \<open>fetch\<close> throws; \<open>res.text()\<close> and
  \<open>res.json()\<close> have their own \<open>.catch\<close>.
\<close>

definition POST_asr ::
  "jsstring option \<Rightarrow> (jsstring \<times> form_value) list promise
     \<Rightarrow> ((jsstring \<times> blob \<times> jsstring) list request \<Rightarrow> response promise)
     \<Rightarrow> next_response \<times> (jsstring \<times> blob \<times> jsstring) list request list" where
  "POST_asr ASR_URL req_formData fetch =
     (case ASR_URL of
        None \<Rightarrow> (asr_not_configured, [])
      | Some asr_url \<Rightarrow>
          if asr_url = [] then (asr_not_configured, [])
          else
            (case req_formData of
               Rejects \<Rightarrow> (asr_internal_error, [])
             | Resolves formData \<Rightarrow>
                 let audio = FormData_get formData (ascii ''audio'')
                 in if entry_falsy audio
                    then (NextResponse_json
                            (JObj [(ascii ''error'', JStr (ascii ''Missing audio file''))]) 400, [])
                    else
                      (case FormData_append [] (ascii ''file'') audio (ascii ''input.webm'') of
                         None \<Rightarrow> (asr_internal_error, [])
                       | Some forwardForm \<Rightarrow>
                           let call = \<lparr>url = asr_url, http_method = ascii ''POST'', headers = [],
                                       body = forwardForm\<rparr>
                           in (case fetch call of
                                 Rejects \<Rightarrow> (asr_internal_error, [call])
                               | Resolves res \<Rightarrow>
                                   if \<not> ok res
                                   then
                                     let errorText = (case body_text res of None \<Rightarrow> [] | Some t \<Rightarrow> t)
                                     in (NextResponse_json
                                           (JObj [(ascii ''error'', JStr (ascii ''ASR backend error'')),
                                                  (ascii ''backendStatus'', JNum (of_nat (status res))),
                                                  (ascii ''backendDetail'', JStr errorText)]) 500,
                                         [call])
                                   else
                                     let data = (case body_json res of None \<Rightarrow> JNull | Some d \<Rightarrow> d)
                                     in if \<not> truthy data
                                        then (NextResponse_json
                                                (JObj [(ascii ''error'',
                                                        JStr (ascii ''Invalid response from ASR backend''))]) 500,
                                              [call])
                                        else
                                          (case js_get data (ascii ''text'') of
                                             JStr t \<Rightarrow>
                                               (NextResponse_json
                                                  (JObj [(ascii ''text'', JStr (trim t))]) 200, [call])
                                           | _ \<Rightarrow>
                                               (NextResponse_json
                                                  (JObj [(ascii ''error'',
                                                          JStr (ascii ''Invalid response from ASR backend''))]) 500,
                                                [call]))))))"

subsection \<open>The variant of the handler in \<open>src/unnamed/part_002\<close>\<close>

text \<open>
  A second copy of the route reads the field \<open>file\<close>, checks \<open>file instanceof Blob\<close>,
  answers 502 for backend failures and returns the backend text as it is.
\<close>

definition POST_asr_part_002 ::
  "jsstring option \<Rightarrow> (jsstring \<times> form_value) list promise
     \<Rightarrow> ((jsstring \<times> blob \<times> jsstring) list request \<Rightarrow> response promise)
     \<Rightarrow> next_response \<times> (jsstring \<times> blob \<times> jsstring) list request list" where
  "POST_asr_part_002 asrServerUrl req_formData fetch =
     (case asrServerUrl of
        None \<Rightarrow> (asr_not_configured, [])
      | Some asr_url \<Rightarrow>
          if asr_url = [] then (asr_not_configured, [])
          else
            (case req_formData of
               Rejects \<Rightarrow> (asr_internal_error, [])
             | Resolves incomingForm \<Rightarrow>
                 (case FormData_get incomingForm (ascii ''file'') of
                    Some (FormFile file) \<Rightarrow>
                      let call = \<lparr>url = asr_url, http_method = ascii ''POST'', headers = [],
                                  body = [(ascii ''file'', file, ascii ''audio.webm'')]\<rparr>
                      in (case fetch call of
                            Rejects \<Rightarrow> (asr_internal_error, [call])
                          | Resolves res \<Rightarrow>
                              if \<not> ok res
                              then
                                let text = (case body_text res of None \<Rightarrow> [] | Some t \<Rightarrow> t)
                                in (NextResponse_json
                                      (JObj [(ascii ''error'', JStr (ascii ''ASR backend error'')),
                                             (ascii ''detail'',
                                                if text \<noteq> [] then JStr text else JUndefined)]) 502,
                                    [call])
                              else
                                let data = (case body_json res of None \<Rightarrow> JNull | Some d \<Rightarrow> d)
                                in if \<not> truthy data
                                   then (NextResponse_json
                                           (JObj [(ascii ''error'',
                                                   JStr (ascii ''Invalid ASR response format''))]) 502,
                                         [call])
                                   else
                                     (case js_get data (ascii ''text'') of
                                        JStr t \<Rightarrow>
                                          (NextResponse_json (JObj [(ascii ''text'', JStr t)]) 200, [call])
                                      | _ \<Rightarrow>
                                          (NextResponse_json
                                             (JObj [(ascii ''error'',
                                                     JStr (ascii ''Invalid ASR response format''))]) 502,
                                           [call])))
                  | _ \<Rightarrow>
                      (NextResponse_json
                         (JObj [(ascii ''error'',
                                 JStr (ascii ''Missing audio file in 'file' field''))]) 400, []))))"

section \<open>Chat UI: \<open>app/page.tsx\<close>\<close>

datatype chat_role = User | Assistant

record ChatMessage =
  role :: chat_role
  content :: jsval

text \<open>
  The \<open>useState\<close> values of \<open>HomePage\<close>. A render of the component is a value of this
  record: the functions a render creates read \<open>input\<close>, \<open>language\<close>, \<open>loading\<close> and
  \<open>isRecording\<close> from it, whenever they run, while the setters act on the state of the
  moment. \<open>errorText\<close> and the content of a message can hold any JSON value, since they
  are filled from untyped response data. \<open>volumeLevel\<close> and the audio-analysis refs only
  drive the volume bar and are left out.
\<close>

record ui_state =
  messages :: "ChatMessage list"
  input :: jsstring
  language :: jsstring
  loading :: bool
  errorText :: jsval
  isRecording :: bool
  isTranscribing :: bool
  recordingError :: jsstring

definition initial_state :: ui_state where
  "initial_state =
     \<lparr>messages = [], input = [], language = ascii ''auto'', loading = False,
      errorText = JStr [], isRecording = False, isTranscribing = False, recordingError = []\<rparr>"

subsection \<open>\<open>sendMessage\<close>\<close>

text \<open>
  The part of \<open>sendMessage\<close> that runs up to \<open>await fetch("/api/chat", ...)\<close>: the new
  state and the request, or the state as it was and no request when the guard returns.
\<close>

definition sendMessage_begin ::
  "ui_state \<Rightarrow> jsstring option \<Rightarrow> ui_state \<Rightarrow> ui_state \<times> jsval request option" where
  "sendMessage_begin render overrideText s =
     (let trimmed = trim (case overrideText of Some t \<Rightarrow> t | None \<Rightarrow> input render)
      in if trimmed = [] \<or> loading render then (s, None)
         else
           (s\<lparr>messages := messages s @ [\<lparr>role = User, content = JStr trimmed\<rparr>],
              input := (if (case overrideText of Some t \<Rightarrow> t = [] | None \<Rightarrow> True)
                        then [] else input s),
              errorText := JStr [],
              loading := True\<rparr>,
            Some \<lparr>url = ascii ''/api/chat'',
                  http_method = ascii ''POST'',
                  headers = [(ascii ''Content-Type'', ascii ''application/json'')],
                  body = JObj [(ascii ''message'', JStr trimmed),
                               (ascii ''language'',
                                  if language render = ascii ''auto'' then JUndefined
                                  else JStr (language render))]\<rparr>))"

text \<open>
  The rest of \<open>sendMessage\<close>, once \<open>fetch\<close> has settled. The \<open>catch\<close> block is reached
  when \<open>fetch\<close> rejects, when \<open>res.json()\<close> of a success response rejects, and when that
  JSON is \<open>null\<close> (reading \<open>data.reply\<close> throws).
\<close>

definition sendMessage_end :: "response promise \<Rightarrow> ui_state \<Rightarrow> ui_state" where
  "sendMessage_end fetched s =
     (case fetched of
        Rejects \<Rightarrow>
          s\<lparr>errorText := JStr (ascii ''Network request failed. Please check your connection or try again.''),
            loading := False\<rparr>
      | Resolves res \<Rightarrow>
          if \<not> ok res
          then
            let data = (case body_json res of None \<Rightarrow> JObj [] | Some d \<Rightarrow> d)
            in s\<lparr>errorText := or_else (opt_prop data (ascii ''error''))
                                 (JStr (ascii ''Server is busy. Please try again later.'')),
                 loading := False\<rparr>
          else
            (case body_json res of
               None \<Rightarrow>
                 s\<lparr>errorText := JStr (ascii ''Network request failed. Please check your connection or try again.''),
                   loading := False\<rparr>
             | Some data \<Rightarrow>
                 if nullish data
                 then s\<lparr>errorText := JStr (ascii ''Network request failed. Please check your connection or try again.''),
                        loading := False\<rparr>
                 else
                   let replyText = or_else (js_get data (ascii ''reply''))
                         (JStr (ascii ''Sorry, I am temporarily unable to respond. Please try again later.''))
                   in s\<lparr>messages := messages s @ [\<lparr>role = Assistant, content = replyText\<rparr>],
                        loading := False\<rparr>))"

text \<open>
  The value of \<open>data?.error\<close> in the branch of \<open>sendMessage\<close> for a response that is not a
  success, and the values of \<open>errorText\<close> that are a text: the error line of the page
  (\<open>{errorText && <div>{errorText}</div>}\<close>) shows a non-empty string as it is.
\<close>

definition payload_error :: "response \<Rightarrow> jsval" where
  "payload_error res =
     opt_prop (case body_json res of None \<Rightarrow> JObj [] | Some d \<Rightarrow> d) (ascii ''error'')"

fun is_text :: "jsval \<Rightarrow> bool" where
  "is_text (JStr t) = (t \<noteq> [])"
| "is_text v = False"

text \<open>\<open>sendMessage\<close> when nothing else happens while it waits for \<open>fetch\<close>.\<close>

definition sendMessage ::
  "ui_state \<Rightarrow> jsstring option \<Rightarrow> (jsval request \<Rightarrow> response promise) \<Rightarrow> ui_state
     \<Rightarrow> ui_state \<times> jsval request list" where
  "sendMessage render overrideText fetch s =
     (case sendMessage_begin render overrideText s of
        (s1, None) \<Rightarrow> (s1, [])
      | (s1, Some call) \<Rightarrow> (sendMessage_end (fetch call) s1, [call]))"

subsection \<open>\<open>transcribeAudio\<close> and \<open>handleAudioBlob\<close>\<close>

definition transcribeAudio_begin ::
  "blob \<Rightarrow> ui_state \<Rightarrow> ui_state \<times> (jsstring \<times> blob \<times> jsstring) list request" where
  "transcribeAudio_begin b s =
     (s\<lparr>recordingError := [], isTranscribing := True\<rparr>,
      \<lparr>url = ascii ''/api/asr'', http_method = ascii ''POST'', headers = [],
       body = [(ascii ''audio'', b, ascii ''audio.webm'')]\<rparr>)"

text \<open>
  What the \<open>try\<close> block of \<open>transcribeAudio\<close> does with the settled \<open>fetch\<close>: it returns
  the text or throws. \<open>data.text?.trim()\<close> throws a TypeError when \<open>data\<close> is \<open>null\<close> and
  when \<open>data.text\<close> is neither a string nor nullish (it has no callable \<open>trim\<close>).
\<close>

datatype thrown =
    Fetch_rejected
  | ASR_request_failed
  | Json_rejected
  | TypeError
  | Empty_transcription

definition transcribeAudio_try :: "response promise \<Rightarrow> thrown + jsstring" where
  "transcribeAudio_try fetched =
     (case fetched of
        Rejects \<Rightarrow> Inl Fetch_rejected
      | Resolves res \<Rightarrow>
          if \<not> ok res then Inl ASR_request_failed
          else
            (case body_json res of
               None \<Rightarrow> Inl Json_rejected
             | Some data \<Rightarrow>
                 if nullish data then Inl TypeError
                 else
                   (case js_get data (ascii ''text'') of
                      JUndefined \<Rightarrow> Inl Empty_transcription
                    | JNull \<Rightarrow> Inl Empty_transcription
                    | JStr t \<Rightarrow> if trim t = [] then Inl Empty_transcription else Inr (trim t)
                    | _ \<Rightarrow> Inl TypeError)))"

definition transcribeAudio_end :: "response promise \<Rightarrow> ui_state \<Rightarrow> ui_state \<times> jsstring" where
  "transcribeAudio_end fetched s =
     (case transcribeAudio_try fetched of
        Inr t \<Rightarrow> (s\<lparr>isTranscribing := False\<rparr>, t)
      | Inl err \<Rightarrow>
          (s\<lparr>recordingError := ascii ''Voice recognition failed. Please try again or type your message.'',
             isTranscribing := False\<rparr>, []))"

text \<open>
  \<open>handleAudioBlob\<close> after the transcription request has settled; \<open>render\<close> is the render
  whose \<open>handleAudioBlob\<close> (and so whose \<open>sendMessage\<close>) is running.
\<close>

definition handleAudioBlob_end ::
  "ui_state \<Rightarrow> response promise \<Rightarrow> ui_state \<Rightarrow> ui_state \<times> jsval request option" where
  "handleAudioBlob_end render fetched s =
     (case transcribeAudio_end fetched s of
        (s1, t) \<Rightarrow> if t = [] then (s1, None) else sendMessage_begin render (Some t) s1)"

subsection \<open>Recording\<close>

text \<open>
  The browser objects the refs point to. Every \<open>MediaRecorder\<close> created so far is kept in
  \<open>recorders\<close> and every \<open>MediaStream\<close> obtained so far in \<open>streams\<close> (\<open>True\<close> while its
  tracks are live); a ref holds an index into these lists. A recorder keeps the render whose
  \<open>startRecording\<close> created it: its \<open>onstop\<close> handler calls the \<open>handleAudioBlob\<close> of that
  render.
\<close>

datatype recorder_state = inactive | recording | paused

record recorder =
  state :: recorder_state
  stream :: nat
  onstop :: ui_state

record media =
  mediaRecorderRef :: "nat option"
  mediaStreamRef :: "nat option"
  audioChunksRef :: "blob list"
  recorders :: "recorder list"
  streams :: "bool list"

definition initial_media :: media where
  "initial_media =
     \<lparr>mediaRecorderRef = None, mediaStreamRef = None, audioChunksRef = [],
      recorders = [], streams = []\<rparr>"

record browser =
  isSecureContext :: bool
  has_getUserMedia :: bool

text \<open>
  \<open>startRecording\<close> up to \<open>await navigator.mediaDevices.getUserMedia(...)\<close>: the new state,
  and whether the microphone was requested.
\<close>

definition startRecording_begin :: "browser \<Rightarrow> ui_state \<Rightarrow> ui_state \<times> bool" where
  "startRecording_begin b s =
     (if \<not> isSecureContext b
      then (s\<lparr>recordingError := ascii ''Browser requires HTTPS or localhost for microphone access. Please open this demo on http://localhost:3000 or via HTTPS.''\<rparr>,
            False)
      else if \<not> has_getUserMedia b
      then (s\<lparr>recordingError := ascii ''Microphone is not supported in this browser.''\<rparr>, False)
      else (s\<lparr>recordingError := []\<rparr>, True))"

text \<open>
  How \<open>getUserMedia\<close> settles: it rejects with an error of some name (empty when the error
  has none), or resolves with a new stream.
\<close>

datatype mic_outcome = MicRejects jsstring | MicResolves

text \<open>
  The rest of \<open>startRecording\<close>. The stream just obtained is live, so that
  \<open>new MediaRecorder(stream)\<close> and \<open>recorder.start()\<close> do not throw.
\<close>

definition startRecording_resume ::
  "ui_state \<Rightarrow> mic_outcome \<Rightarrow> ui_state \<times> media \<Rightarrow> ui_state \<times> media" where
  "startRecording_resume render outcome sm =
     (case sm of (s, m) \<Rightarrow>
        (case outcome of
           MicRejects name \<Rightarrow>
             (s\<lparr>recordingError :=
                  ascii ''Could not access microphone ('' @ (if name \<noteq> [] then name else ascii ''error'')
                    @ ascii ''). Please check permissions and try again.''\<rparr>,
              m)
         | MicResolves \<Rightarrow>
             (s\<lparr>isRecording := True\<rparr>,
              m\<lparr>mediaStreamRef := Some (length (streams m)),
                audioChunksRef := [],
                mediaRecorderRef := Some (length (recorders m)),
                recorders := recorders m
                  @ [\<lparr>state = recording, stream = length (streams m), onstop = render\<rparr>],
                streams := streams m @ [True]\<rparr>)))"

text \<open>
  \<open>stopRecording\<close>: \<open>stop()\<close> makes the recorder inactive at once and queues its
  \<open>dataavailable\<close> and \<open>stop\<close> events; the result names the recorder whose events are
  queued.
\<close>

definition stopRecording :: "ui_state \<times> media \<Rightarrow> (ui_state \<times> media) \<times> nat option" where
  "stopRecording sm =
     (case sm of (s, m) \<Rightarrow>
        (case mediaRecorderRef m of
           Some i \<Rightarrow>
             if i < length (recorders m) \<and> state (recorders m ! i) \<noteq> inactive
             then ((s\<lparr>isRecording := False\<rparr>,
                    m\<lparr>recorders := (recorders m)[i := (recorders m ! i)\<lparr>state := inactive\<rparr>]\<rparr>),
                   Some i)
             else ((s\<lparr>isRecording := False\<rparr>, m), None)
         | None \<Rightarrow> ((s\<lparr>isRecording := False\<rparr>, m), None)))"

text \<open>
  What \<open>handleToggleRecording\<close> of a render does before it first waits: it stops, or it
  begins to start.
\<close>

datatype toggled = Stop_queued nat | Mic_requested | Nothing_queued

definition handleToggleRecording ::
  "browser \<Rightarrow> ui_state \<Rightarrow> ui_state \<times> media \<Rightarrow> (ui_state \<times> media) \<times> toggled" where
  "handleToggleRecording b render sm =
     (if isRecording render
      then (case stopRecording sm of
              (sm1, Some i) \<Rightarrow> (sm1, Stop_queued i)
            | (sm1, None) \<Rightarrow> (sm1, Nothing_queued))
      else (case sm of (s, m) \<Rightarrow>
              (case startRecording_begin b s of
                 (s1, True) \<Rightarrow> ((s1, m), Mic_requested)
               | (s1, False) \<Rightarrow> ((s1, m), Nothing_queued))))"

fun blob_bytes :: "blob \<Rightarrow> 8 word list" where
  "blob_bytes (Blob bs t) = bs"

text \<open>
  The \<open>ondataavailable\<close> handler, and the \<open>onstop\<close> handler up to its call of
  \<open>handleAudioBlob\<close>: it releases the stream the ref points to, builds the blob from the
  collected chunks and empties them.
\<close>

definition ondataavailable :: "blob \<Rightarrow> media \<Rightarrow> media" where
  "ondataavailable data m =
     (if blob_bytes data \<noteq> [] then m\<lparr>audioChunksRef := audioChunksRef m @ [data]\<rparr> else m)"

definition onstop_collect :: "media \<Rightarrow> media \<times> blob" where
  "onstop_collect m =
     (m\<lparr>streams := (case mediaStreamRef m of
                       Some i \<Rightarrow> (streams m)[i := False]
                     | None \<Rightarrow> streams m),
        mediaStreamRef := None,
        audioChunksRef := []\<rparr>,
      Blob (concat (map blob_bytes (audioChunksRef m))) (ascii ''audio/webm''))"

subsection \<open>The page as an event-driven machine\<close>

text \<open>
  The calls that are suspended at an \<open>await\<close> or queued by the browser, oldest first. A
  suspended call keeps the render whose function it is.
\<close>

datatype task =
    GetUserMedia ui_state
  | StopEvent nat
  | AsrFetch ui_state "(jsstring \<times> blob \<times> jsstring) list request"
  | ChatFetch "jsval request"

record world =
  ui :: ui_state
  refs :: media
  pending :: "task list"

definition initial_world :: world where
  "initial_world = \<lparr>ui = initial_state, refs = initial_media, pending = []\<rparr>"

text \<open>
  User events reach the handlers of the latest render, whose values are those of the
  current state; a disabled button gives no click. \<open>Settle i x\<close> lets the \<open>i\<close>-th pending
  call go on with the outcome \<open>x\<close>.
\<close>

datatype outcome =
    Mic mic_outcome
  | Stopped blob
  | Fetched "response promise"

datatype event =
    TypeText jsstring
  | SelectLanguage jsstring
  | ClickSend
  | PressEnter
  | ClickMic
  | Settle nat outcome

definition submit :: "ui_state \<Rightarrow> jsstring option \<Rightarrow> world \<Rightarrow> world" where
  "submit render overrideText w =
     (case sendMessage_begin render overrideText (ui w) of
        (s1, None) \<Rightarrow> w\<lparr>ui := s1\<rparr>
      | (s1, Some call) \<Rightarrow> w\<lparr>ui := s1, pending := pending w @ [ChatFetch call]\<rparr>)"

definition toggle :: "browser \<Rightarrow> ui_state \<Rightarrow> world \<Rightarrow> world" where
  "toggle b render w =
     (case handleToggleRecording b render (ui w, refs w) of
        ((s1, m1), Stop_queued i) \<Rightarrow> w\<lparr>ui := s1, refs := m1, pending := pending w @ [StopEvent i]\<rparr>
      | ((s1, m1), Mic_requested) \<Rightarrow>
          w\<lparr>ui := s1, refs := m1, pending := pending w @ [GetUserMedia render]\<rparr>
      | ((s1, m1), Nothing_queued) \<Rightarrow> w\<lparr>ui := s1, refs := m1\<rparr>)"

text \<open>
  A pending call goes on: \<open>w\<close> is the world without that call. The result is \<open>None\<close> when
  the outcome is not of the kind the call waits for.
\<close>

fun resume :: "task \<Rightarrow> outcome \<Rightarrow> world \<Rightarrow> world option" where
  "resume (GetUserMedia render) (Mic x) w =
     (case startRecording_resume render x (ui w, refs w) of
        (s1, m1) \<Rightarrow> Some (w\<lparr>ui := s1, refs := m1\<rparr>))"
| "resume (StopEvent i) (Stopped data) w =
     (if i < length (recorders (refs w))
      then (case onstop_collect (ondataavailable data (refs w)) of
              (m1, audioBlob) \<Rightarrow>
                (case transcribeAudio_begin audioBlob (ui w) of
                   (s1, call) \<Rightarrow>
                     Some (w\<lparr>ui := s1, refs := m1,
                             pending := pending w @ [AsrFetch (onstop (recorders (refs w) ! i)) call]\<rparr>)))
      else None)"
| "resume (AsrFetch render call) (Fetched x) w =
     (case handleAudioBlob_end render x (ui w) of
        (s1, None) \<Rightarrow> Some (w\<lparr>ui := s1\<rparr>)
      | (s1, Some chat) \<Rightarrow> Some (w\<lparr>ui := s1, pending := pending w @ [ChatFetch chat]\<rparr>))"
| "resume (ChatFetch call) (Fetched x) w = Some (w\<lparr>ui := sendMessage_end x (ui w)\<rparr>)"
| "resume t x w = None"

fun step :: "browser \<Rightarrow> world \<Rightarrow> event \<Rightarrow> world" where
  "step b w (TypeText t) = w\<lparr>ui := (ui w)\<lparr>input := t\<rparr>\<rparr>"
| "step b w (SelectLanguage l) = w\<lparr>ui := (ui w)\<lparr>language := l\<rparr>\<rparr>"
| "step b w ClickSend =
     (if loading (ui w) \<or> trim (input (ui w)) = [] then w else submit (ui w) None w)"
| "step b w PressEnter = submit (ui w) None w"
| "step b w ClickMic =
     (if loading (ui w) \<or> isTranscribing (ui w) then w else toggle b (ui w) w)"
| "step b w (Settle i x) =
     (if i < length (pending w)
      then (case resume (pending w ! i) x
                   (w\<lparr>pending := take i (pending w) @ drop (Suc i) (pending w)\<rparr>) of
              Some w1 \<Rightarrow> w1
            | None \<Rightarrow> w)
      else w)"

definition run :: "browser \<Rightarrow> event list \<Rightarrow> world \<Rightarrow> world" where
  "run b events w = foldl (step b) w events"

definition active_sessions :: "world \<Rightarrow> nat" where
  "active_sessions w = length (filter (\<lambda>r. state r = recording) (recorders (refs w)))"

fun is_ChatFetch :: "task \<Rightarrow> bool" where
  "is_ChatFetch (ChatFetch call) = True"
| "is_ChatFetch t = False"

definition chats_in_flight :: "world \<Rightarrow> nat" where
  "chats_in_flight w = length (filter is_ChatFetch (pending w))"

subsection \<open>The renders kept by pending calls\<close>

fun task_render :: "task \<Rightarrow> ui_state option" where
  "task_render (GetUserMedia render) = Some render"
| "task_render (AsrFetch render call) = Some render"
| "task_render t = None"

text \<open>
  No suspended \<open>startRecording\<close> or \<open>handleAudioBlob\<close>, and no \<open>onstop\<close> handler, belongs to a
  render in which \<open>loading\<close> was true.
\<close>

definition closures_idle :: "world \<Rightarrow> bool" where
  "closures_idle w \<longleftrightarrow>
     (\<forall>t\<in>set (pending w). \<forall>r. task_render t = Some r \<longrightarrow> \<not> loading r)
     \<and> (\<forall>rec\<in>set (recorders (refs w)). \<not> loading (onstop rec))"

section \<open>Example inputs\<close>


definition hello_backend :: "'a \<Rightarrow> response promise" where
  "hello_backend call =
     Resolves \<lparr>status = 200, body_text = None,
               body_json = Some (JObj [(ascii ''text'', JStr (ascii ''  hello  ''))])\<rparr>"

definition busy_server :: "'a \<Rightarrow> response promise" where
  "busy_server call =
     Resolves \<lparr>status = 502, body_text = None,
               body_json = Some (JObj [(ascii ''error'', JStr (ascii ''LLM server error''))])\<rparr>"

definition ok_json :: "jsval \<Rightarrow> response promise" where
  "ok_json v = Resolves \<lparr>status = 200, body_text = None, body_json = Some v\<rparr>"

text \<open>A server that answers 500 with an \<open>error\<close> that is an object, \<open>{"code": 7}\<close>.\<close>

definition object_error_server :: "'a \<Rightarrow> response promise" where
  "object_error_server call =
     Resolves \<lparr>status = 500, body_text = None,
               body_json = Some (JObj [(ascii ''error'', JObj [(ascii ''code'', JNum 7)])])\<rparr>"

text \<open>A browser in a secure context that has \<open>getUserMedia\<close>.\<close>

definition chrome :: browser where
  "chrome = \<lparr>isSecureContext = True, has_getUserMedia = True\<rparr>"

text \<open>
  The page after the user has started a recording, the microphone was granted, the user has
  stopped the recording and the recorder has delivered its data and its \<open>stop\<close> event: the
  transcription request is pending.
\<close>

definition recorded_and_stopped :: world where
  "recorded_and_stopped =
     run chrome
       [ClickMic, Settle 0 (Mic MicResolves), ClickMic,
        Settle 0 (Stopped (Blob [1] (ascii ''audio/webm'')))]
       initial_world"

text \<open>Or, while the transcription is pending, the user types \<open>draft\<close> into the input box.\<close>

definition drafted :: world where
  "drafted = run chrome [TypeText (ascii ''draft'')] recorded_and_stopped"

text \<open>Then, while the transcription is pending, the user types \<open>A\<close> and clicks Send.\<close>

definition typed_while_transcribing :: world where
  "typed_while_transcribing =
     run chrome [TypeText (ascii ''A''), ClickSend] recorded_and_stopped"

section \<open>Properties of \<open>trim\<close>\<close>

lemma trim_split:
  "s = takeWhile is_ws s @ trim s @ rev (takeWhile is_ws (rev (dropWhile is_ws s)))"
proof -
  let ?d = "dropWhile is_ws s"
  have "rev ?d = takeWhile is_ws (rev ?d) @ dropWhile is_ws (rev ?d)"
    by (simp only: takeWhile_dropWhile_id)
  from arg_cong[OF this, of rev]
  have "?d = rev (dropWhile is_ws (rev ?d)) @ rev (takeWhile is_ws (rev ?d))"
    by (simp only: rev_rev_ident rev_append)
  then have "?d = trim s @ rev (takeWhile is_ws (rev ?d))"
    by (simp only: trim_def)
  moreover have "s = takeWhile is_ws s @ ?d"
    by (simp only: takeWhile_dropWhile_id)
  ultimately show ?thesis by metis
qed

lemma trim_drop:
  "dropWhile is_ws s = trim s @ rev (takeWhile is_ws (rev (dropWhile is_ws s)))"
  using trim_split[of s] takeWhile_dropWhile_id[of is_ws s] by (metis same_append_eq)

lemma trim_last: "trim s \<noteq> [] \<Longrightarrow> \<not> is_ws (last (trim s))"
  by (simp add: trim_def last_rev hd_dropWhile)

lemma trim_hd: "trim s \<noteq> [] \<Longrightarrow> \<not> is_ws (hd (trim s))"
proof -
  assume ne: "trim s \<noteq> []"
  let ?d = "dropWhile is_ws s"
  note d = trim_drop[of s]
  have "?d \<noteq> []" using ne d by (metis append_is_Nil_conv)
  then have "\<not> is_ws (hd ?d)" by (rule hd_dropWhile)
  moreover have "hd ?d = hd (trim s)" using d ne by (metis hd_append2)
  ultimately show ?thesis by simp
qed

lemma trim_Nil: "trim [] = []"
  by (simp add: trim_def)

lemma trim_empty_iff: "trim s = [] \<longleftrightarrow> (\<forall>c\<in>set s. is_ws c)"
proof
  assume e: "trim s = []"
  have "s = takeWhile is_ws s @ rev (takeWhile is_ws (rev (dropWhile is_ws s)))"
    using trim_split[of s] e by simp
  then have "set s = set (takeWhile is_ws s) \<union> set (takeWhile is_ws (rev (dropWhile is_ws s)))"
    by (metis set_append set_rev)
  then show "\<forall>c\<in>set s. is_ws c" by (auto dest: set_takeWhileD)
next
  assume "\<forall>c\<in>set s. is_ws c"
  then have "dropWhile is_ws s = []" by simp
  then show "trim s = []" unfolding trim_def by (simp only: rev.simps dropWhile.simps)
qed

lemma trim_idem: "trim (trim s) = trim s"
proof (cases "trim s = []")
  case True
  then show ?thesis by (simp only: trim_Nil)
next
  case False
  have 1: "dropWhile is_ws (trim s) = trim s"
    using trim_hd[OF False] False by (cases "trim s") simp_all
  have "\<not> is_ws (hd (rev (trim s)))" using trim_last[OF False] False by (simp add: hd_rev)
  then have 2: "dropWhile is_ws (rev (trim s)) = rev (trim s)"
    using False by (cases "rev (trim s)") simp_all
  show ?thesis
    unfolding trim_def[of "trim s"] 1 2 by (simp only: rev_rev_ident)
qed

lemma trim_hello: "trim (ascii ''  hello  '') = ascii ''hello''"
  by (simp add: trim_def ascii_def is_ws_def)

section \<open>The Chat Relay\<close>













section \<open>The Transcription Relay\<close>

lemma js_get_JStr_truthy: "js_get data k = JStr t \<Longrightarrow> truthy data"
  by (cases data) simp_all

text \<open>
  C3, as amended: in the handler of \<open>app/api/asr/route.ts\<close>, when the backend call
  succeeds with a JSON body whose \<open>text\<close> is a string, the relay
  answers \<open>{ text }\<close> with status 200, where \<open>text\<close> is the backend's text without its
  leading and trailing white space: the backend's text is white space, then the answer,
  then white space, and a non-empty answer neither starts nor ends with white space.
\<close>

theorem asr_returns_trimmed_text:
  assumes "ASR_URL = Some u" and "u \<noteq> []"
    and "FormData_get form (ascii ''audio'') = Some (FormFile audio)"
    and "fetch \<lparr>url = u, http_method = ascii ''POST'', headers = [],
                 body = [(ascii ''file'', audio, ascii ''input.webm'')]\<rparr> = Resolves res"
    and "ok res" and "body_json res = Some data" and "js_get data (ascii ''text'') = JStr t"
  shows "fst (POST_asr ASR_URL (Resolves form) fetch)
           = NextResponse_json (JObj [(ascii ''text'', JStr (trim t))]) 200
         \<and> (\<exists>pre post. t = pre @ trim t @ post
               \<and> (\<forall>c\<in>set pre. is_ws c) \<and> (\<forall>c\<in>set post. is_ws c))
         \<and> (trim t \<noteq> [] \<longrightarrow> \<not> is_ws (hd (trim t)) \<and> \<not> is_ws (last (trim t)))"
proof -
  have 1: "fst (POST_asr ASR_URL (Resolves form) fetch)
           = NextResponse_json (JObj [(ascii ''text'', JStr (trim t))]) 200"
    using assms js_get_JStr_truthy[OF assms(7)]
    by (simp add: POST_asr_def FormData_append_def Let_def)
  have "t = takeWhile is_ws t @ trim t @ rev (takeWhile is_ws (rev (dropWhile is_ws t)))"
    by (rule trim_split)
  moreover have "\<forall>c\<in>set (takeWhile is_ws t). is_ws c" by (auto dest: set_takeWhileD)
  moreover have "\<forall>c\<in>set (rev (takeWhile is_ws (rev (dropWhile is_ws t)))). is_ws c"
    by (auto dest: set_takeWhileD)
  ultimately have 2: "\<exists>pre post. t = pre @ trim t @ post
               \<and> (\<forall>c\<in>set pre. is_ws c) \<and> (\<forall>c\<in>set post. is_ws c)"
    by blast
  show ?thesis using 1 2 trim_hd[of t] trim_last[of t] by blast
qed

text \<open>The theorem at the backend answer \<open>{"text": "  hello  "}\<close>: the relay answers \<open>hello\<close>.\<close>

theorem asr_returns_trimmed_text_witness:
  "fst (POST_asr (Some (ascii ''http://asr''))
          (Resolves [(ascii ''audio'', FormFile (Blob [1, 2] (ascii ''audio/webm'')))])
          hello_backend)
     = NextResponse_json (JObj [(ascii ''text'', JStr (ascii ''hello''))]) 200"
  using asr_returns_trimmed_text[of "Some (ascii ''http://asr'')" "ascii ''http://asr''"
      "[(ascii ''audio'', FormFile (Blob [1, 2] (ascii ''audio/webm'')))]" "Blob [1, 2] (ascii ''audio/webm'')"
      hello_backend
      "\<lparr>status = 200, body_text = None,
               body_json = Some (JObj [(ascii ''text'', JStr (ascii ''  hello  ''))])\<rparr>"
      "JObj [(ascii ''text'', JStr (ascii ''  hello  ''))]" "ascii ''  hello  ''"]
  by (simp add: FormData_get_def hello_backend_def ok_def trim_hello) (simp add: ascii_def)

text \<open>
  The copy of the handler in \<open>src/unnamed/part_002\<close> answers the backend's
  \<open>{"text": "  hello  "}\<close> with the text as it is, white space included.
\<close>

theorem asr_part_002_untrimmed_counterexample:
  "POST_asr_part_002 (Some (ascii ''http://asr''))
      (Resolves [(ascii ''file'', FormFile (Blob [1, 2] (ascii ''audio/webm'')))]) hello_backend
     = (NextResponse_json (JObj [(ascii ''text'', JStr (ascii ''  hello  ''))]) 200,
        [\<lparr>url = ascii ''http://asr'', http_method = ascii ''POST'', headers = [],
          body = [(ascii ''file'', Blob [1, 2] (ascii ''audio/webm''), ascii ''audio.webm'')]\<rparr>])
   \<and> ascii ''  hello  '' \<noteq> ascii ''hello''"
  by (simp add: POST_asr_part_002_def FormData_get_def hello_backend_def ok_def ascii_def)

lemma asr_part_002_returns_text_as_it_is:
  assumes "asrServerUrl = Some u" and "u \<noteq> []"
    and "FormData_get form (ascii ''file'') = Some (FormFile file)"
    and "fetch \<lparr>url = u, http_method = ascii ''POST'', headers = [],
                 body = [(ascii ''file'', file, ascii ''audio.webm'')]\<rparr> = Resolves res"
    and "ok res" and "body_json res = Some data" and "js_get data (ascii ''text'') = JStr t"
  shows "fst (POST_asr_part_002 asrServerUrl (Resolves form) fetch)
           = NextResponse_json (JObj [(ascii ''text'', JStr t)]) 200"
  using assms js_get_JStr_truthy[OF assms(7)]
  by (simp add: POST_asr_part_002_def Let_def)

text \<open>
  C4 at an \<open>audio\<close> field that is the plain text \<open>hello\<close>: the relay does not call the
  backend, but its answer is status 500 with the error of the \<open>catch\<close> block, not 400.
\<close>

theorem asr_text_field_gives_500:
  "POST_asr (Some (ascii ''http://asr'')) (Resolves [(ascii ''audio'', FormText (ascii ''hello''))])
      hello_backend
     = (NextResponse_json
          (JObj [(ascii ''error'', JStr (ascii ''Internal server error in /api/asr''))]) 500, [])"
  by (simp add: POST_asr_def FormData_get_def FormData_append_def asr_internal_error_def ascii_def)

text \<open>The variant of the handler answers the same kind of request with 400.\<close>

lemma asr_part_002_text_field_gives_400:
  "POST_asr_part_002 (Some (ascii ''http://asr'')) (Resolves [(ascii ''file'', FormText (ascii ''hello''))])
      hello_backend
     = (NextResponse_json
          (JObj [(ascii ''error'', JStr (ascii ''Missing audio file in 'file' field''))]) 400, [])"
  by (simp add: POST_asr_part_002_def FormData_get_def ascii_def)

text \<open>
  What does hold of the handler: without a file in the \<open>audio\<close> field the backend is never
  called, and an absent or empty \<open>audio\<close> field is answered with 400.
\<close>

lemma asr_non_blob_never_calls_backend:
  assumes "\<forall>b. FormData_get form (ascii ''audio'') \<noteq> Some (FormFile b)"
  shows "snd (POST_asr ASR_URL (Resolves form) fetch) = []"
proof (cases "FormData_get form (ascii ''audio'')")
  case None
  then show ?thesis by (simp add: POST_asr_def split: option.splits)
next
  case (Some v)
  then obtain t where "v = FormText t" using assms by (cases v) auto
  with Some show ?thesis
    by (simp add: POST_asr_def FormData_append_def split: option.splits)
qed

lemma asr_missing_or_empty_gives_400:
  assumes "ASR_URL = Some u" and "u \<noteq> []"
    and "FormData_get form (ascii ''audio'') = None
         \<or> FormData_get form (ascii ''audio'') = Some (FormText [])"
  shows "POST_asr ASR_URL (Resolves form) fetch
           = (NextResponse_json (JObj [(ascii ''error'', JStr (ascii ''Missing audio file''))]) 400, [])"
  using assms by (auto simp add: POST_asr_def)

section \<open>The Chat UI: submitting\<close>

text \<open>
  The guard of \<open>sendMessage\<close>, for the render whose \<open>sendMessage\<close> is called: with blank
  text, or with \<open>loading\<close> true in that render, nothing changes and nothing is sent. A
  click on Send or a press of Enter calls the function of the latest render.
\<close>

lemma sendMessage_guard:
  assumes "trim (case ov of Some t \<Rightarrow> t | None \<Rightarrow> input render) = [] \<or> loading render"
  shows "sendMessage_begin render ov s = (s, None)"
  using assms by (auto simp add: sendMessage_begin_def Let_def)

lemma user_submit_guard:
  assumes "trim (input (ui w)) = [] \<or> loading (ui w)"
  shows "step b w ClickSend = w" and "step b w PressEnter = w"
  using assms by (auto simp add: submit_def sendMessage_begin_def Let_def)

lemma sendMessage_begin_passes:
  assumes "trim (case ov of Some t \<Rightarrow> t | None \<Rightarrow> input render) = c" and "c \<noteq> []"
    and "\<not> loading render"
  shows "\<exists>call. snd (sendMessage_begin render ov s) = Some call
           \<and> js_get (body call) (ascii ''message'') = JStr c
           \<and> url call = ascii ''/api/chat''"
    and "messages (fst (sendMessage_begin render ov s))
           = messages s @ [\<lparr>role = User, content = JStr c\<rparr>]"
    and "loading (fst (sendMessage_begin render ov s))"
    and "errorText (fst (sendMessage_begin render ov s)) = JStr []"
  using assms by (auto simp add: sendMessage_begin_def Let_def ascii_def)

lemma sendMessage_end_failed_text:
  assumes "x = Rejects \<or> (\<exists>res. x = Resolves res \<and> \<not> ok res
              \<and> (truthy (payload_error res) \<longrightarrow> typeof (payload_error res) = ''string''))"
  shows "messages (sendMessage_end x s) = messages s"
    and "is_text (errorText (sendMessage_end x s))"
    and "\<not> loading (sendMessage_end x s)"
proof -
  have t: "is_text v" if "truthy v" "typeof v = ''string''" for v
    using that by (cases v) simp_all
  show "messages (sendMessage_end x s) = messages s"
    using assms by (auto simp add: sendMessage_end_def Let_def split: option.splits)
  show "\<not> loading (sendMessage_end x s)"
    using assms by (auto simp add: sendMessage_end_def Let_def split: option.splits)
  show "is_text (errorText (sendMessage_end x s))"
  proof (cases x)
    case Rejects
    then show ?thesis by (simp add: sendMessage_end_def ascii_def)
  next
    case (Resolves res)
    with assms have nok: "\<not> ok res"
      and e: "truthy (payload_error res) \<longrightarrow> typeof (payload_error res) = ''string''" by auto
    have "errorText (sendMessage_end x s)
            = or_else (payload_error res) (JStr (ascii ''Server is busy. Please try again later.''))"
      using Resolves nok by (simp add: sendMessage_end_def Let_def payload_error_def)
    then show ?thesis
      using e t[of "payload_error res"] by (simp add: or_else_def ascii_def)
  qed
qed

text \<open>
  C10, as amended: when a submit passes the guard and its chat request fails (the request
  is rejected at transport level, or the response is not a success and the \<open>error\<close> of its
  payload is a string or is absent or otherwise falsy), the history is the old one followed
  by the user entry, with no assistant entry; the error text is set to a non-empty string;
  \<open>loading\<close> is false again; and from the resulting render any non-blank text can be
  submitted. The failure leaves the history alone and resets \<open>loading\<close> whatever else has
  happened to the state in between.
\<close>

theorem failed_submit_keeps_user_entry:
  assumes "trim (case ov of Some t \<Rightarrow> t | None \<Rightarrow> input render) = c" and "c \<noteq> []"
    and "\<not> loading render"
    and "snd (sendMessage_begin render ov s) = Some call"
    and "fetch call = Rejects
         \<or> (\<exists>res. fetch call = Resolves res \<and> \<not> ok res
               \<and> (truthy (payload_error res) \<longrightarrow> typeof (payload_error res) = ''string''))"
    and "s2 = fst (sendMessage render ov fetch s)"
  shows "messages s2 = messages s @ [\<lparr>role = User, content = JStr c\<rparr>]
         \<and> is_text (errorText s2)
         \<and> \<not> loading s2
         \<and> snd (sendMessage render ov fetch s) = [call]
         \<and> (\<forall>s'. messages (sendMessage_end (fetch call) s') = messages s'
                 \<and> is_text (errorText (sendMessage_end (fetch call) s'))
                 \<and> \<not> loading (sendMessage_end (fetch call) s'))
         \<and> (\<forall>t. trim t \<noteq> [] \<longrightarrow>
               (\<exists>next_call. snd (sendMessage_begin (s2\<lparr>input := t\<rparr>) None (s2\<lparr>input := t\<rparr>))
                               = Some next_call))"
proof -
  obtain s1 where b: "sendMessage_begin render ov s = (s1, Some call)"
    using assms(4) by (cases "sendMessage_begin render ov s") auto
  have m: "messages s1 = messages s @ [\<lparr>role = User, content = JStr c\<rparr>]"
    using sendMessage_begin_passes(2)[OF assms(1-3), of s] b by simp
  have r: "sendMessage render ov fetch s = (sendMessage_end (fetch call) s1, [call])"
    using b by (simp add: sendMessage_def)
  have s2: "s2 = sendMessage_end (fetch call) s1"
    using r assms(6) by simp
  note f = sendMessage_end_failed_text[OF assms(5)]
  have nl: "\<not> loading s2" unfolding s2 by (rule f(3))
  have next_ok: "\<exists>next_call. snd (sendMessage_begin (s2\<lparr>input := t\<rparr>) None (s2\<lparr>input := t\<rparr>))
                               = Some next_call" if "trim t \<noteq> []" for t
    using that nl by (simp add: sendMessage_begin_def Let_def)
  show ?thesis
    using r m f next_ok unfolding s2 by simp
qed

text \<open>
  The theorem at the typed text \<open> hi \<close> and a server that answers 502 with an error text:
  the entry \<open>hi\<close> stays, the server's text is shown, \<open>loading\<close> is false.
\<close>

theorem failed_submit_keeps_user_entry_witness:
  "fst (sendMessage (initial_state\<lparr>input := ascii '' hi ''\<rparr>) None busy_server
          (initial_state\<lparr>input := ascii '' hi ''\<rparr>))
     = initial_state\<lparr>messages := [\<lparr>role = User, content = JStr (ascii ''hi'')\<rparr>],
                      errorText := JStr (ascii ''LLM server error'')\<rparr>"
proof -
  let ?r = "initial_state\<lparr>input := ascii '' hi ''\<rparr>"
  let ?call = "\<lparr>url = ascii ''/api/chat'', http_method = ascii ''POST'',
                headers = [(ascii ''Content-Type'', ascii ''application/json'')],
                body = JObj [(ascii ''message'', JStr (ascii ''hi'')),
                             (ascii ''language'', JUndefined)]\<rparr>"
  have 1: "trim (case None of Some t \<Rightarrow> t | None \<Rightarrow> input ?r) = ascii ''hi''"
    by (simp add: trim_def is_ws_def ascii_def)
  have 2: "ascii ''hi'' \<noteq> []" by (simp add: ascii_def)
  have 3: "\<not> loading ?r" by (simp add: initial_state_def)
  have 4: "snd (sendMessage_begin ?r None ?r) = Some ?call"
    using 1 2 by (simp add: sendMessage_begin_def Let_def initial_state_def)
  have 5: "busy_server ?call = Rejects
           \<or> (\<exists>res. busy_server ?call = Resolves res \<and> \<not> ok res
                 \<and> (truthy (payload_error res) \<longrightarrow> typeof (payload_error res) = ''string''))"
    by (simp add: busy_server_def ok_def payload_error_def opt_prop_def ascii_def)
  have e: "fst (sendMessage ?r None busy_server ?r)
             = (fst (sendMessage_begin ?r None ?r))
                 \<lparr>errorText := JStr (ascii ''LLM server error''), loading := False\<rparr>"
    using 4 by (cases "sendMessage_begin ?r None ?r")
      (simp add: sendMessage_def sendMessage_end_def busy_server_def ok_def Let_def opt_prop_def
        or_else_def ascii_def)
  from failed_submit_keeps_user_entry[where fetch = busy_server and call = ?call, OF 1 2 3 4 5 refl]
  have "messages (fst (sendMessage ?r None busy_server ?r))
          = messages ?r @ [\<lparr>role = User, content = JStr (ascii ''hi'')\<rparr>]"
    by blast
  then show ?thesis
    using e 1 2 by (simp add: sendMessage_begin_def Let_def initial_state_def)
qed

text \<open>
  A response that is not a success and whose \<open>error\<close> is an object: what \<open>errorText\<close> is
  set to is that object, not a text.
\<close>

theorem failed_submit_object_error_counterexample:
  "errorText (fst (sendMessage (initial_state\<lparr>input := ascii ''hi''\<rparr>) None object_error_server
                    (initial_state\<lparr>input := ascii ''hi''\<rparr>)))
     = JObj [(ascii ''code'', JNum 7)]
   \<and> \<not> is_text (JObj [(ascii ''code'', JNum 7)])"
  by (simp add: sendMessage_def sendMessage_begin_def sendMessage_end_def object_error_server_def
      ok_def Let_def opt_prop_def or_else_def initial_state_def trim_def is_ws_def ascii_def)

section \<open>The Chat UI: error texts\<close>

text \<open>
  C5, as amended: a chat request that fails at transport level shows the fixed text
  \<open>Network request failed. ...\<close>; a chat response that is not a success shows the \<open>error\<close>
  of its payload when that is a non-empty string, and the fixed text \<open>Server is busy. ...\<close>
  when the payload has no \<open>error\<close> (or a falsy one) or is not JSON; every failed
  transcription, whether the request is rejected at transport level, the response is not a
  success, or the text is empty or only white space, shows the one fixed text
  \<open>Voice recognition failed. ...\<close>. The three fixed texts are pairwise distinct.
\<close>

theorem ui_error_messages:
  "errorText (sendMessage_end Rejects s)
     = JStr (ascii ''Network request failed. Please check your connection or try again.'')
   \<and> (\<forall>res. \<not> ok res \<longrightarrow>
         (\<forall>t. payload_error res = JStr t \<and> t \<noteq> [] \<longrightarrow>
            errorText (sendMessage_end (Resolves res) s) = JStr t)
         \<and> (\<not> truthy (payload_error res) \<longrightarrow>
            errorText (sendMessage_end (Resolves res) s)
              = JStr (ascii ''Server is busy. Please try again later.'')))
   \<and> (\<forall>x e. transcribeAudio_try x = Inl e \<longrightarrow>
         recordingError (fst (transcribeAudio_end x s))
           = ascii ''Voice recognition failed. Please try again or type your message.'')
   \<and> transcribeAudio_try Rejects = Inl Fetch_rejected
   \<and> (\<forall>res. \<not> ok res \<longrightarrow> transcribeAudio_try (Resolves res) = Inl ASR_request_failed)
   \<and> (\<forall>res data t. ok res \<and> body_json res = Some data \<and> js_get data (ascii ''text'') = JStr t
         \<and> trim t = [] \<longrightarrow> transcribeAudio_try (Resolves res) = Inl Empty_transcription)
   \<and> ascii ''Network request failed. Please check your connection or try again.''
        \<noteq> ascii ''Server is busy. Please try again later.''
   \<and> ascii ''Network request failed. Please check your connection or try again.''
        \<noteq> ascii ''Voice recognition failed. Please try again or type your message.''
   \<and> ascii ''Server is busy. Please try again later.''
        \<noteq> ascii ''Voice recognition failed. Please try again or type your message.''"
proof -
  have 1: "errorText (sendMessage_end Rejects s)
     = JStr (ascii ''Network request failed. Please check your connection or try again.'')"
    by (simp add: sendMessage_end_def)
  have e: "errorText (sendMessage_end (Resolves res) s)
             = or_else (payload_error res) (JStr (ascii ''Server is busy. Please try again later.''))"
    if "\<not> ok res" for res
    using that by (simp add: sendMessage_end_def Let_def payload_error_def)
  have 2: "(\<forall>t. payload_error res = JStr t \<and> t \<noteq> [] \<longrightarrow>
            errorText (sendMessage_end (Resolves res) s) = JStr t)
         \<and> (\<not> truthy (payload_error res) \<longrightarrow>
            errorText (sendMessage_end (Resolves res) s)
              = JStr (ascii ''Server is busy. Please try again later.''))"
    if "\<not> ok res" for res
    unfolding e[OF that] by (simp add: or_else_def)
  have 3: "recordingError (fst (transcribeAudio_end x s))
           = ascii ''Voice recognition failed. Please try again or type your message.''"
    if "transcribeAudio_try x = Inl e" for x e
    using that by (simp add: transcribeAudio_end_def)
  have 4: "transcribeAudio_try Rejects = Inl Fetch_rejected"
    by (simp add: transcribeAudio_try_def)
  have 5: "transcribeAudio_try (Resolves res) = Inl ASR_request_failed" if "\<not> ok res" for res
    using that by (simp add: transcribeAudio_try_def)
  have 6: "transcribeAudio_try (Resolves res) = Inl Empty_transcription"
    if "ok res \<and> body_json res = Some data \<and> js_get data (ascii ''text'') = JStr t \<and> trim t = []"
    for res data t
  proof -
    have "\<not> nullish data" using that by (cases data) auto
    then show ?thesis using that by (simp add: transcribeAudio_try_def)
  qed
  have 7: "ascii ''Network request failed. Please check your connection or try again.''
        \<noteq> ascii ''Server is busy. Please try again later.''"
    "ascii ''Network request failed. Please check your connection or try again.''
        \<noteq> ascii ''Voice recognition failed. Please try again or type your message.''"
    "ascii ''Server is busy. Please try again later.''
        \<noteq> ascii ''Voice recognition failed. Please try again or type your message.''"
    by (simp_all add: ascii_def)
  show ?thesis using 1 2 3 4 5 6 7 by blast
qed

text \<open>
  The theorem at a 502 response with an error text, for a chat request and for a
  transcription request, and at a transcription of three spaces.
\<close>

theorem ui_error_messages_witness:
  "errorText (sendMessage_end (busy_server ()) initial_state) = JStr (ascii ''LLM server error'')
   \<and> recordingError (fst (transcribeAudio_end (busy_server ()) initial_state))
       = ascii ''Voice recognition failed. Please try again or type your message.''
   \<and> recordingError (fst (transcribeAudio_end (ok_json (JObj [(ascii ''text'', JStr (ascii ''   ''))]))
         initial_state))
       = ascii ''Voice recognition failed. Please try again or type your message.''"
proof -
  let ?res = "\<lparr>status = 502, body_text = None,
               body_json = Some (JObj [(ascii ''error'', JStr (ascii ''LLM server error''))])\<rparr>"
  let ?blank = "\<lparr>status = 200, body_text = None,
               body_json = Some (JObj [(ascii ''text'', JStr (ascii ''   ''))])\<rparr>"
  note t = ui_error_messages[of initial_state]
  have nok: "\<not> ok ?res" by (simp add: ok_def)
  have b: "busy_server () = Resolves ?res" by (simp add: busy_server_def)
  have k: "ok_json (JObj [(ascii ''text'', JStr (ascii ''   ''))]) = Resolves ?blank"
    by (simp add: ok_json_def)
  have pe: "payload_error ?res = JStr (ascii ''LLM server error'') \<and> ascii ''LLM server error'' \<noteq> []"
    by (simp add: payload_error_def opt_prop_def ascii_def)
  from t nok pe have 1: "errorText (sendMessage_end (busy_server ()) initial_state) = JStr (ascii ''LLM server error'')"
    unfolding b by blast
  have "transcribeAudio_try (Resolves ?res) = Inl ASR_request_failed" using t nok by blast
  with t have 2: "recordingError (fst (transcribeAudio_end (busy_server ()) initial_state))
       = ascii ''Voice recognition failed. Please try again or type your message.''"
    unfolding b by blast
  have "ok ?blank \<and> body_json ?blank = Some (JObj [(ascii ''text'', JStr (ascii ''   ''))])
         \<and> js_get (JObj [(ascii ''text'', JStr (ascii ''   ''))]) (ascii ''text'') = JStr (ascii ''   '')
         \<and> trim (ascii ''   '') = []"
    by (simp add: ok_def trim_def is_ws_def ascii_def)
  with t have "transcribeAudio_try (Resolves ?blank) = Inl Empty_transcription" by blast
  with t have 3: "recordingError (fst (transcribeAudio_end (ok_json (JObj [(ascii ''text'', JStr (ascii ''   ''))]))
         initial_state))
       = ascii ''Voice recognition failed. Please try again or type your message.''"
    unfolding k by blast
  show ?thesis using 1 2 3 by simp
qed

text \<open>
  A transcription request rejected at transport level and a transcription of three spaces
  are failures of two categories, and they show the same text.
\<close>

theorem voice_failures_share_one_message:
  "recordingError (fst (transcribeAudio_end Rejects initial_state))
     = recordingError (fst (transcribeAudio_end
         (ok_json (JObj [(ascii ''text'', JStr (ascii ''   ''))])) initial_state))
   \<and> transcribeAudio_try Rejects = Inl Fetch_rejected
   \<and> transcribeAudio_try (ok_json (JObj [(ascii ''text'', JStr (ascii ''   ''))])) = Inl Empty_transcription"
  by (simp add: transcribeAudio_end_def transcribeAudio_try_def ok_json_def ok_def trim_def is_ws_def ascii_def)

text \<open>
  With the Chat Relay of this repository as the server, the text shown for a response that
  is not a success is one of the relay's four error texts, and none of them is one of the
  other fixed texts.
\<close>

lemma chat_relay_error_payload:
  assumes "POST_chat env req fetch = (NextResponse_json p code, calls)"
    and "\<not> (200 \<le> code \<and> code \<le> 299)"
  shows "\<exists>e. js_get p (ascii ''error'') = JStr e \<and> (\<exists>rest. p = JObj ((ascii ''error'', JStr e) # rest))
           \<and> e \<in> {ascii ''Missing message'', ascii ''LLM_SERVER_URL is not configured'',
                   ascii ''LLM server error'', ascii ''Internal server error''}"
  using assms
  by (auto simp add: POST_chat_def chat_internal_error_def Let_def
      split: promise.splits option.splits chat_body.splits if_splits)

lemma relay_errors_shown:
  assumes "POST_chat env req fetch = (NextResponse_json p code, calls)"
    and "\<not> (200 \<le> code \<and> code \<le> 299)"
    and "status res = code" and "body_json res = Some p"
  shows "\<exists>e. errorText (sendMessage_end (Resolves res) s) = JStr e
           \<and> e \<in> {ascii ''Missing message'', ascii ''LLM_SERVER_URL is not configured'',
                   ascii ''LLM server error'', ascii ''Internal server error''}
           \<and> e \<noteq> ascii ''Network request failed. Please check your connection or try again.''
           \<and> e \<noteq> ascii ''Voice recognition failed. Please try again or type your message.''"
proof -
  from chat_relay_error_payload[OF assms(1,2)] obtain e rest where
    e: "p = JObj ((ascii ''error'', JStr e) # rest)"
       "e \<in> {ascii ''Missing message'', ascii ''LLM_SERVER_URL is not configured'',
              ascii ''LLM server error'', ascii ''Internal server error''}"
    by blast
  have ne: "e \<noteq> []" using e(2) by (auto simp add: ascii_def)
  have nok: "\<not> ok res" using assms(2,3) by (simp add: ok_def)
  have "errorText (sendMessage_end (Resolves res) s) = JStr e"
    using nok assms(4) e(1) ne
    by (simp add: sendMessage_end_def Let_def or_else_def opt_prop_def)
  moreover have "e \<noteq> ascii ''Network request failed. Please check your connection or try again.''"
    "e \<noteq> ascii ''Voice recognition failed. Please try again or type your message.''"
    using e(2) by (auto simp add: ascii_def)
  ultimately show ?thesis using e(2) by blast
qed

section \<open>The Chat UI: the voice flow\<close>

lemma transcribeAudio_try_Inr_iff:
  "transcribeAudio_try x = Inr t \<longleftrightarrow>
     (\<exists>res data t0. x = Resolves res \<and> ok res \<and> body_json res = Some data
        \<and> js_get data (ascii ''text'') = JStr t0 \<and> trim t0 = t \<and> t \<noteq> [])"
proof (cases x)
  case Rejects
  then show ?thesis by (simp add: transcribeAudio_try_def)
next
  case (Resolves res)
  show ?thesis
  proof (cases "body_json res")
    case None
    with Resolves show ?thesis by (simp add: transcribeAudio_try_def)
  next
    case (Some data)
    have "nullish data \<Longrightarrow> js_get data (ascii ''text'') = JUndefined"
      by (cases data) simp_all
    with Resolves Some show ?thesis
      by (cases "js_get data (ascii ''text'')") (auto simp add: transcribeAudio_try_def)
  qed
qed

lemma transcribeAudio_try_Inr_trimmed:
  "transcribeAudio_try x = Inr t \<Longrightarrow> t \<noteq> [] \<and> trim t = t"
  using transcribeAudio_try_Inr_iff[of x t] trim_idem by auto

lemma handleAudioBlob_end_success:
  assumes "transcribeAudio_try x = Inr t" and "\<not> loading render"
  shows "handleAudioBlob_end render x s
           = sendMessage_begin render (Some t) (s\<lparr>isTranscribing := False\<rparr>)"
  using assms transcribeAudio_try_Inr_trimmed[OF assms(1)]
  by (simp add: handleAudioBlob_end_def transcribeAudio_end_def)

lemma handleAudioBlob_end_failure:
  assumes "transcribeAudio_try x = Inl e"
  shows "handleAudioBlob_end render x s
           = (s\<lparr>recordingError := ascii ''Voice recognition failed. Please try again or type your message.'',
                isTranscribing := False\<rparr>, None)"
  using assms by (simp add: handleAudioBlob_end_def transcribeAudio_end_def)

subsection \<open>The renders of pending calls were not loading\<close>

text \<open>
  The microphone button is disabled while \<open>loading\<close> is true, so every recording is started
  from a render in which it is false; that render is the one whose \<open>sendMessage\<close> the voice
  flow calls in the end.
\<close>

lemma resume_effect:
  assumes "resume t x w = Some w1"
  shows "(recorders (refs w1) = recorders (refs w)
          \<or> (\<exists>r sid. t = GetUserMedia r
                \<and> recorders (refs w1) = recorders (refs w) @ [\<lparr>state = recording, stream = sid, onstop = r\<rparr>]))
       \<and> (pending w1 = pending w
          \<or> (\<exists>j c. t = StopEvent j \<and> j < length (recorders (refs w))
                \<and> pending w1 = pending w @ [AsrFetch (onstop (recorders (refs w) ! j)) c])
          \<or> (\<exists>c. pending w1 = pending w @ [ChatFetch c]))"
proof (cases t)
  case (GetUserMedia render)
  with assms obtain m where "x = Mic m" by (cases x) auto
  with assms GetUserMedia show ?thesis
    by (cases m) (auto simp add: startRecording_resume_def)
next
  case (StopEvent j)
  with assms obtain d where "x = Stopped d" by (cases x) auto
  with assms StopEvent show ?thesis
    by (auto simp add: onstop_collect_def ondataavailable_def transcribeAudio_begin_def split: if_splits)
next
  case (AsrFetch render call)
  with assms obtain f where "x = Fetched f" by (cases x) auto
  with assms AsrFetch show ?thesis
    by (auto split: prod.splits option.splits)
next
  case (ChatFetch call)
  with assms obtain f where "x = Fetched f" by (cases x) auto
  with assms ChatFetch show ?thesis by auto
qed

lemma toggle_effect:
  "(\<forall>rec\<in>set (recorders (refs (toggle b render w))).
      \<exists>rec'\<in>set (recorders (refs w)). onstop rec = onstop rec')
   \<and> (pending (toggle b render w) = pending w
      \<or> (\<exists>j. pending (toggle b render w) = pending w @ [StopEvent j])
      \<or> pending (toggle b render w) = pending w @ [GetUserMedia render])"
proof (cases "isRecording render")
  case False
  then show ?thesis
    by (auto simp add: toggle_def handleToggleRecording_def startRecording_begin_def)
next
  case True
  have *: "\<exists>rec'\<in>set rs. onstop rec = onstop rec'"
    if "rec \<in> set (rs[i := (rs ! i)\<lparr>state := inactive\<rparr>])" and "i < length rs" for rec rs i
  proof -
    from that(1) have "rec = (rs ! i)\<lparr>state := inactive\<rparr> \<or> rec \<in> set rs"
      using set_update_subset_insert[of rs i] by auto
    then show ?thesis using that(2) by (auto intro: bexI[of _ "rs ! i"])
  qed
  show ?thesis
  proof (cases "mediaRecorderRef (refs w)")
    case None
    with True show ?thesis by (auto simp add: toggle_def handleToggleRecording_def stopRecording_def)
  next
    case (Some i)
    show ?thesis
    proof (cases "i < length (recorders (refs w)) \<and> state (recorders (refs w) ! i) \<noteq> inactive")
      case False
      with True Some show ?thesis
        by (auto simp add: toggle_def handleToggleRecording_def stopRecording_def)
    next
      case t: True
      with True Some have
        "recorders (refs (toggle b render w))
           = (recorders (refs w))[i := (recorders (refs w) ! i)\<lparr>state := inactive\<rparr>]"
        and "pending (toggle b render w) = pending w @ [StopEvent i]"
        by (simp_all add: toggle_def handleToggleRecording_def stopRecording_def)
      then show ?thesis using *[of _ "recorders (refs w)" i] t by auto
    qed
  qed
qed

lemma submit_effect:
  "refs (submit render ov w) = refs w
   \<and> (pending (submit render ov w) = pending w
      \<or> (\<exists>c. pending (submit render ov w) = pending w @ [ChatFetch c]))"
  by (auto simp add: submit_def split: prod.splits option.splits)

lemma closures_idle_step:
  assumes "closures_idle w"
  shows "closures_idle (step b w e)"
proof (cases e)
  case (TypeText t)
  with assms show ?thesis by (simp add: closures_idle_def)
next
  case (SelectLanguage l)
  with assms show ?thesis by (simp add: closures_idle_def)
next
  case ClickSend
  with assms submit_effect[of "ui w" None w] show ?thesis
    by (auto simp add: closures_idle_def)
next
  case PressEnter
  with assms submit_effect[of "ui w" None w] show ?thesis
    by (auto simp add: closures_idle_def)
next
  case ClickMic
  show ?thesis
  proof (cases "loading (ui w) \<or> isTranscribing (ui w)")
    case True
    with ClickMic assms show ?thesis by simp
  next
    case False
    then have s: "step b w e = toggle b (ui w) w" using ClickMic by simp
    have nl: "\<not> loading (ui w)" using False by simp
    note eff = toggle_effect[of b "ui w" w]
    have rec: "\<forall>rec\<in>set (recorders (refs (toggle b (ui w) w))). \<not> loading (onstop rec)"
    proof
      fix rec assume "rec \<in> set (recorders (refs (toggle b (ui w) w)))"
      with eff obtain rec' where "rec' \<in> set (recorders (refs w))" "onstop rec = onstop rec'"
        by blast
      with assms show "\<not> loading (onstop rec)" unfolding closures_idle_def by simp
    qed
    from eff consider "pending (toggle b (ui w) w) = pending w"
      | j where "pending (toggle b (ui w) w) = pending w @ [StopEvent j]"
      | "pending (toggle b (ui w) w) = pending w @ [GetUserMedia (ui w)]"
      by blast
    then have pen: "\<forall>t\<in>set (pending (toggle b (ui w) w)). \<forall>r. task_render t = Some r \<longrightarrow> \<not> loading r"
    proof cases
      case 1
      then show ?thesis using assms by (simp add: closures_idle_def)
    next
      case 2
      then show ?thesis using assms by (auto simp add: closures_idle_def)
    next
      case 3
      then show ?thesis using assms nl by (auto simp add: closures_idle_def)
    qed
    show ?thesis unfolding s using rec pen by (simp add: closures_idle_def)
  qed
next
  case (Settle i x)
  show ?thesis
  proof (cases "i < length (pending w)")
    case False
    with Settle assms show ?thesis by simp
  next
    case True
    let ?w = "w\<lparr>pending := take i (pending w) @ drop (Suc i) (pending w)\<rparr>"
    have idle': "closures_idle ?w"
      using assms unfolding closures_idle_def by (auto dest: in_set_takeD in_set_dropD)
    have tin: "pending w ! i \<in> set (pending w)" using True by simp
    have "closures_idle w1" if r: "resume (pending w ! i) x ?w = Some w1" for w1
    proof -
      note eff = resume_effect[OF r]
      have rec: "\<forall>rec\<in>set (recorders (refs w1)). \<not> loading (onstop rec)"
      proof -
        from eff consider "recorders (refs w1) = recorders (refs ?w)"
          | r' sid where "pending w ! i = GetUserMedia r'"
              "recorders (refs w1) = recorders (refs ?w) @ [\<lparr>state = recording, stream = sid, onstop = r'\<rparr>]"
          by blast
        then show ?thesis
        proof cases
          case 1
          then show ?thesis using idle' by (simp add: closures_idle_def)
        next
          case 2
          have "\<not> loading r'" using assms tin 2(1) unfolding closures_idle_def by force
          then show ?thesis using idle' 2(2) by (auto simp add: closures_idle_def)
        qed
      qed
      have pen: "\<forall>t\<in>set (pending w1). \<forall>r. task_render t = Some r \<longrightarrow> \<not> loading r"
      proof -
        from eff consider "pending w1 = pending ?w"
          | j c where "j < length (recorders (refs ?w))"
              "pending w1 = pending ?w @ [AsrFetch (onstop (recorders (refs ?w) ! j)) c]"
          | c where "pending w1 = pending ?w @ [ChatFetch c]"
          by blast
        then show ?thesis
        proof cases
          case 1
          then show ?thesis using idle' by (simp add: closures_idle_def)
        next
          case 2
          have "recorders (refs ?w) ! j \<in> set (recorders (refs ?w))" using 2(1) by simp
          then have "\<not> loading (onstop (recorders (refs ?w) ! j))"
            using idle' unfolding closures_idle_def by blast
          then show ?thesis using idle' 2(2) unfolding closures_idle_def by auto
        next
          case 3
          then show ?thesis using idle' unfolding closures_idle_def by auto
        qed
      qed
      show ?thesis using rec pen by (simp add: closures_idle_def)
    qed
    with Settle True assms show ?thesis
      by (auto split: option.splits)
  qed
qed

lemma closures_idle_foldl:
  "closures_idle w \<Longrightarrow> closures_idle (foldl (step b) w events)"
  by (induction events arbitrary: w) (simp_all add: closures_idle_step)

lemma closures_idle_run: "closures_idle (run b events initial_world)"
  unfolding run_def
  by (rule closures_idle_foldl) (simp add: closures_idle_def initial_world_def initial_media_def)

subsection \<open>What the voice flow does when the transcription request settles\<close>

text \<open>
  C8, as amended: in any state the page can reach, when the transcription request of a
  stopped recording settles, then: if it yields a text that is not empty once trimmed (a
  success response whose JSON has a string \<open>text\<close> that is not all white space) and no chat
  request is in flight (\<open>loading\<close> is false), the trimmed text is appended to the history
  as a user entry and a chat request with it as message is issued, which leaves the state
  that typing the text and sending it would leave, except that the input box is not
  emptied; in every other case of the transcription the voice error text is shown, the
  history is unchanged and no chat request is issued.
\<close>

theorem voice_flow_submits_or_reports:
  assumes "w = run b events initial_world"
    and "i < length (pending w)" and "pending w ! i = AsrFetch render call"
    and "w' = step b w (Settle i (Fetched x))"
  shows "(\<forall>t. transcribeAudio_try x = Inr t \<and> \<not> loading (ui w) \<longrightarrow>
            ui w' = (ui w)\<lparr>messages := messages (ui w) @ [\<lparr>role = User, content = JStr t\<rparr>],
                          errorText := JStr [], loading := True, isTranscribing := False\<rparr>
          \<and> (\<exists>chat. pending w' = take i (pending w) @ drop (Suc i) (pending w) @ [ChatFetch chat]
                \<and> url chat = ascii ''/api/chat''
                \<and> js_get (body chat) (ascii ''message'') = JStr t)
          \<and> fst (sendMessage_begin ((ui w)\<lparr>isTranscribing := False, input := t\<rparr>) None
                   ((ui w)\<lparr>isTranscribing := False, input := t\<rparr>))
              = (ui w')\<lparr>input := []\<rparr>)
       \<and> (\<forall>e. transcribeAudio_try x = Inl e \<longrightarrow>
            ui w' = (ui w)\<lparr>recordingError :=
                            ascii ''Voice recognition failed. Please try again or type your message.'',
                          isTranscribing := False\<rparr>
          \<and> pending w' = take i (pending w) @ drop (Suc i) (pending w))
       \<and> (\<forall>t. transcribeAudio_try x = Inr t \<longleftrightarrow>
            (\<exists>res data t0. x = Resolves res \<and> ok res \<and> body_json res = Some data
               \<and> js_get data (ascii ''text'') = JStr t0 \<and> trim t0 = t \<and> t \<noteq> []))"
proof -
  have "closures_idle w" unfolding assms(1) by (rule closures_idle_run)
  moreover have "pending w ! i \<in> set (pending w)" using assms(2) by simp
  ultimately have nl: "\<not> loading render"
    unfolding closures_idle_def assms(3) by force
  have w': "w' = (case handleAudioBlob_end render x (ui w) of
                    (s1, None) \<Rightarrow> w\<lparr>pending := take i (pending w) @ drop (Suc i) (pending w), ui := s1\<rparr>
                  | (s1, Some chat) \<Rightarrow>
                      w\<lparr>pending := take i (pending w) @ drop (Suc i) (pending w), ui := s1,
                        pending := take i (pending w) @ drop (Suc i) (pending w) @ [ChatFetch chat]\<rparr>)"
    using assms(2,3) unfolding assms(4) by (simp split: prod.splits option.splits)
  have good: "ui w' = (ui w)\<lparr>messages := messages (ui w) @ [\<lparr>role = User, content = JStr t\<rparr>],
                          errorText := JStr [], loading := True, isTranscribing := False\<rparr>
          \<and> (\<exists>chat. pending w' = take i (pending w) @ drop (Suc i) (pending w) @ [ChatFetch chat]
                \<and> url chat = ascii ''/api/chat''
                \<and> js_get (body chat) (ascii ''message'') = JStr t)
          \<and> fst (sendMessage_begin ((ui w)\<lparr>isTranscribing := False, input := t\<rparr>) None
                   ((ui w)\<lparr>isTranscribing := False, input := t\<rparr>))
              = (ui w')\<lparr>input := []\<rparr>"
    if t: "transcribeAudio_try x = Inr t" and idle: "\<not> loading (ui w)" for t
  proof -
    note tt = transcribeAudio_try_Inr_trimmed[OF t]
    have h: "handleAudioBlob_end render x (ui w)
               = sendMessage_begin render (Some t) ((ui w)\<lparr>isTranscribing := False\<rparr>)"
      by (rule handleAudioBlob_end_success[OF t nl])
    show ?thesis
      unfolding w' h using nl tt idle
      by (simp add: sendMessage_begin_def Let_def ascii_def)
  qed
  have bad: "ui w' = (ui w)\<lparr>recordingError :=
                            ascii ''Voice recognition failed. Please try again or type your message.'',
                          isTranscribing := False\<rparr>
          \<and> pending w' = take i (pending w) @ drop (Suc i) (pending w)"
    if e: "transcribeAudio_try x = Inl e" for e
    unfolding w' handleAudioBlob_end_failure[OF e] by simp
  show ?thesis
    using good bad transcribeAudio_try_Inr_iff[of x] by blast
qed

lemmas machine_defs = run_def chrome_def initial_world_def initial_state_def initial_media_def
  toggle_def handleToggleRecording_def startRecording_begin_def startRecording_resume_def
  stopRecording_def onstop_collect_def ondataavailable_def transcribeAudio_begin_def
  submit_def sendMessage_begin_def

lemmas eval_defs = machine_defs Let_def ascii_def trim_def is_ws_def ok_json_def ok_def
  handleAudioBlob_end_def transcribeAudio_end_def transcribeAudio_try_def
  chats_in_flight_def active_sessions_def

lemma recorded_and_stopped_eq:
  "recorded_and_stopped =
     \<lparr>ui = initial_state\<lparr>isTranscribing := True\<rparr>,
      refs = \<lparr>mediaRecorderRef = Some 0, mediaStreamRef = None, audioChunksRef = [],
              recorders = [\<lparr>state = inactive, stream = 0, onstop = initial_state\<rparr>],
              streams = [False]\<rparr>,
      pending = [AsrFetch initial_state
                   \<lparr>url = ascii ''/api/asr'', http_method = ascii ''POST'', headers = [],
                     body = [(ascii ''audio'', Blob [1] (ascii ''audio/webm''), ascii ''audio.webm'')]\<rparr>]\<rparr>"
  by (simp add: recorded_and_stopped_def machine_defs)

text \<open>
  The theorem after one recording: the transcription \<open> B \<close> is submitted as \<open>B\<close>; a
  rejected transcription request shows the error text and submits nothing.
\<close>

theorem voice_flow_submits_or_reports_witness:
  "\<not> loading (ui recorded_and_stopped)
   \<and> ui (step chrome recorded_and_stopped
         (Settle 0 (Fetched (ok_json (JObj [(ascii ''text'', JStr (ascii '' B ''))])))))
     = (ui recorded_and_stopped)
         \<lparr>messages := messages (ui recorded_and_stopped) @ [\<lparr>role = User, content = JStr (ascii ''B'')\<rparr>],
          errorText := JStr [], loading := True, isTranscribing := False\<rparr>
   \<and> ui (step chrome recorded_and_stopped (Settle 0 (Fetched Rejects)))
     = (ui recorded_and_stopped)
         \<lparr>recordingError := ascii ''Voice recognition failed. Please try again or type your message.'',
          isTranscribing := False\<rparr>
   \<and> pending (step chrome recorded_and_stopped (Settle 0 (Fetched Rejects))) = []"
proof -
  have p: "pending recorded_and_stopped
             = [AsrFetch initial_state
                  \<lparr>url = ascii ''/api/asr'', http_method = ascii ''POST'', headers = [],
                    body = [(ascii ''audio'', Blob [1] (ascii ''audio/webm''), ascii ''audio.webm'')]\<rparr>]"
    by (simp add: recorded_and_stopped_eq)
  have 1: "0 < length (pending recorded_and_stopped)"
    and 2: "pending recorded_and_stopped ! 0
             = AsrFetch initial_state
                  \<lparr>url = ascii ''/api/asr'', http_method = ascii ''POST'', headers = [],
                    body = [(ascii ''audio'', Blob [1] (ascii ''audio/webm''), ascii ''audio.webm'')]\<rparr>"
    by (simp_all add: p)
  have nl: "\<not> loading (ui recorded_and_stopped)"
    by (simp add: recorded_and_stopped_eq initial_state_def)
  have t: "transcribeAudio_try (ok_json (JObj [(ascii ''text'', JStr (ascii '' B ''))])) = Inr (ascii ''B'')"
    by (simp add: transcribeAudio_try_def ok_json_def ok_def trim_def is_ws_def ascii_def)
  have f: "transcribeAudio_try Rejects = Inl Fetch_rejected"
    by (simp add: transcribeAudio_try_def)
  note a = voice_flow_submits_or_reports[OF recorded_and_stopped_def 1 2 refl,
              of "ok_json (JObj [(ascii ''text'', JStr (ascii '' B ''))])"]
  note b = voice_flow_submits_or_reports[OF recorded_and_stopped_def 1 2 refl, of Rejects]
  from a t nl have "ui (step chrome recorded_and_stopped
         (Settle 0 (Fetched (ok_json (JObj [(ascii ''text'', JStr (ascii '' B ''))])))))
     = (ui recorded_and_stopped)
         \<lparr>messages := messages (ui recorded_and_stopped) @ [\<lparr>role = User, content = JStr (ascii ''B'')\<rparr>],
          errorText := JStr [], loading := True, isTranscribing := False\<rparr>"
    by blast
  moreover from b f have "ui (step chrome recorded_and_stopped (Settle 0 (Fetched Rejects)))
     = (ui recorded_and_stopped)
         \<lparr>recordingError := ascii ''Voice recognition failed. Please try again or type your message.'',
          isTranscribing := False\<rparr>
   \<and> pending (step chrome recorded_and_stopped (Settle 0 (Fetched Rejects)))
        = take 0 (pending recorded_and_stopped) @ drop (Suc 0) (pending recorded_and_stopped)"
    by blast
  ultimately show ?thesis using nl by (simp add: p)
qed

text \<open>
  With \<open>draft\<close> in the input box, the voice flow submits \<open>B\<close> and leaves \<open>draft\<close> in the box;
  typing \<open>B\<close> and clicking Send submits \<open>B\<close> and leaves the box empty.
\<close>

theorem voice_flow_keeps_input_counterexample:
  "messages (ui (step chrome drafted
       (Settle 0 (Fetched (ok_json (JObj [(ascii ''text'', JStr (ascii ''B''))]))))))
     = [\<lparr>role = User, content = JStr (ascii ''B'')\<rparr>]
   \<and> input (ui (step chrome drafted
       (Settle 0 (Fetched (ok_json (JObj [(ascii ''text'', JStr (ascii ''B''))]))))))
     = ascii ''draft''
   \<and> messages (ui (run chrome [TypeText (ascii ''B''), ClickSend] drafted))
     = [\<lparr>role = User, content = JStr (ascii ''B'')\<rparr>]
   \<and> input (ui (run chrome [TypeText (ascii ''B''), ClickSend] drafted)) = []
   \<and> ascii ''draft'' \<noteq> []"
  by (simp add: drafted_def recorded_and_stopped_def eval_defs)

section \<open>The Chat UI: one chat request, one recording\<close>

text \<open>
  C6 at the events: start a recording, stop it, and while its transcription is pending type
  \<open>A\<close> and click Send; then the transcription \<open>B\<close> arrives. Before it arrives \<open>loading\<close> is
  true and one chat request is in flight. The voice flow submits \<open>B\<close> through the
  \<open>sendMessage\<close> of the render that started the recording, in which \<open>loading\<close> was false:
  the submit is not a no-op, the history grows by the entry \<open>B\<close> and two chat requests are in
  flight.
\<close>

theorem voice_submit_while_chat_in_flight:
  "loading (ui typed_while_transcribing)
   \<and> chats_in_flight typed_while_transcribing = 1
   \<and> messages (ui (step chrome typed_while_transcribing
         (Settle 0 (Fetched (ok_json (JObj [(ascii ''text'', JStr (ascii ''B''))]))))))
      = messages (ui typed_while_transcribing) @ [\<lparr>role = User, content = JStr (ascii ''B'')\<rparr>]
   \<and> chats_in_flight (step chrome typed_while_transcribing
         (Settle 0 (Fetched (ok_json (JObj [(ascii ''text'', JStr (ascii ''B''))]))))) = 2"
  by (simp add: typed_while_transcribing_def recorded_and_stopped_def eval_defs)

text \<open>
  C7 at two clicks on the microphone button before the first \<open>getUserMedia\<close> call has
  settled: \<open>isRecording\<close> is still false at the second click, so both clicks start, and once
  both calls have resolved two recorders are recording at the same time.
\<close>

theorem double_start_two_sessions:
  "active_sessions
     (run chrome [ClickMic, ClickMic, Settle 0 (Mic MicResolves), Settle 0 (Mic MicResolves)]
        initial_world) = 2"
  by (simp add: active_sessions_def machine_defs)

text \<open>
  What does hold of the toggle: called from a render in which \<open>isRecording\<close> is true it only
  stops; it requests no microphone, creates no recorder and sets none recording.
\<close>

lemma toggle_while_recording_only_stops:
  assumes "isRecording render"
  shows "snd (handleToggleRecording b render (s, m)) \<noteq> Mic_requested"
    and "length (recorders (snd (fst (handleToggleRecording b render (s, m))))) = length (recorders m)"
    and "\<forall>i < length (recorders m).
           state (recorders m ! i) \<noteq> recording \<longrightarrow>
           state (recorders (snd (fst (handleToggleRecording b render (s, m)))) ! i) \<noteq> recording"
  using assms
  by (auto simp add: handleToggleRecording_def stopRecording_def nth_list_update
      split: option.splits prod.splits)

end
